theory Spec2Isabelle
  imports Main "HOL-Library.Sublist"
begin

section \<open>Career Counseling Agent (app.py)\<close>

text \<open>
  The application is one Python script: four tool factories that wrap a prompt template
  around a model handle, \<open>build_tools\<close>, which looks the enabled tool names up in a
  dictionary, and the Streamlit page, whose session state holds the chat transcript and
  the conversation memory. The language model, the agent loop and the memory class come
  from libraries; the model handle and the agent are parameters of the definitions below.
\<close>

subsection \<open>Exceptions and the model handle\<close>

text \<open>
  An instance of Python's \<open>Exception\<close>, as the script observes it: the handler around
  \<open>agent.run\<close> only formats it into the reply, so an exception is its \<open>str()\<close> text.
  Interpreter exits and interrupts, which are not instances of \<open>Exception\<close> and which
  \<open>except Exception\<close> does not catch, are not outcomes of a call in this model.
\<close>

datatype py_exception = PyException (str_of: string)

text \<open>
  \<open>llm.invoke(prompt).content\<close>: the model handle answers a prompt with a text, or the
  call raises.
\<close>

type_synonym llm = "string \<Rightarrow> py_exception + string"

subsection \<open>The four prompt templates and their tools\<close>

text \<open>
  Each inner function builds \<open>prompt\<close> with an f-string whose only placeholder is
  \<open>{input_text}\<close>, then returns \<open>llm.invoke(prompt).content\<close>. The f-string opens
  with a line break after the opening quotes and closes with one after the placeholder.
\<close>

definition skills_gap_analyzer_prompt :: "string \<Rightarrow> string" where
  "skills_gap_analyzer_prompt input_text =
   ''\<newline>'' @
   ''You are a senior career coach and technical mentor.\<newline>'' @
   ''\<newline>'' @
   ''Task: Compare the user's current skills against the target job and identify:\<newline>'' @
   ''1. Strong matches\<newline>'' @
   ''2. Partial matches\<newline>'' @
   ''3. Clear gaps\<newline>'' @
   ''4. A step-by-step learning path (ordered roadmap) to close the gaps.\<newline>'' @
   ''5. Recommended resources or practice project ideas.\<newline>'' @
   ''\<newline>'' @
   ''Be concrete and structured. Use short sections and bullet points.\<newline>'' @
   ''\<newline>'' @
   ''User & Job Info:\<newline>'' @
   input_text @ ''\<newline>''"

definition skills_gap_analyzer :: "llm \<Rightarrow> string \<Rightarrow> py_exception + string" where
  "skills_gap_analyzer llm input_text = llm (skills_gap_analyzer_prompt input_text)"

definition resume_scorer_prompt :: "string \<Rightarrow> string" where
  "resume_scorer_prompt input_text =
   ''\<newline>'' @
   ''You are an expert resume reviewer for top tech companies.\<newline>'' @
   ''\<newline>'' @
   ''Task:\<newline>'' @
   ''1. Score the resume out of 10 for the specified target role.\<newline>'' @
   ''2. Briefly explain the score.\<newline>'' @
   ''3. List concrete, actionable improvements:\<newline>'' @
   ''   - content (projects, impact, metrics)\<newline>'' @
   ''   - structure & clarity\<newline>'' @
   ''   - keywords & ATS-friendliness\<newline>'' @
   ''4. Provide a revised sample bullet or small section as an example.\<newline>'' @
   ''\<newline>'' @
   ''Be concise but specific.\<newline>'' @
   ''\<newline>'' @
   ''Input:\<newline>'' @
   input_text @ ''\<newline>''"

definition resume_scorer :: "llm \<Rightarrow> string \<Rightarrow> py_exception + string" where
  "resume_scorer llm input_text = llm (resume_scorer_prompt input_text)"

definition salary_estimator_prompt :: "string \<Rightarrow> string" where
  "salary_estimator_prompt input_text =
   ''\<newline>'' @
   ''You are a career and compensation advisor.\<newline>'' @
   ''\<newline>'' @
   ''Task:\<newline>'' @
   ''1. Estimate a realistic **base salary range** for this profile (low, median, high).\<newline>'' @
   ''2. Specify the assumed currency clearly.\<newline>'' @
   ''3. Mention factors that affect the range:\<newline>'' @
   ''   - company size (startup vs big tech),\<newline>'' @
   ''   - cost of living at the location,\<newline>'' @
   ''   - skills & specialization,\<newline>'' @
   ''   - remote vs on-site.\<newline>'' @
   ''4. Add a short note on how the user can validate/adjust this range using public sources.\<newline>'' @
   ''\<newline>'' @
   ''Be explicit that this is an approximate estimate, not official or guaranteed.\<newline>'' @
   ''\<newline>'' @
   ''Profile:\<newline>'' @
   input_text @ ''\<newline>''"

definition salary_estimator :: "llm \<Rightarrow> string \<Rightarrow> py_exception + string" where
  "salary_estimator llm input_text = llm (salary_estimator_prompt input_text)"

definition interview_question_generator_prompt :: "string \<Rightarrow> string" where
  "interview_question_generator_prompt input_text =
   ''\<newline>'' @
   ''You are an expert interviewer.\<newline>'' @
   ''\<newline>'' @
   ''Task:\<newline>'' @
   ''1. Generate interview questions for the given role and level.\<newline>'' @
   ''2. Include the requested mix of technical and/or behavioral questions.\<newline>'' @
   ''3. Group questions by category (e.g., Technical - Python, Technical - SQL, Behavioral).\<newline>'' @
   ''4. For each question, optionally add:\<newline>'' @
   ''   - a short hint or what the interviewer is looking for,\<newline>'' @
   ''   - difficulty tag (easy/medium/hard).\<newline>'' @
   ''\<newline>'' @
   ''Input:\<newline>'' @
   input_text @ ''\<newline>''"

definition interview_question_generator :: "llm \<Rightarrow> string \<Rightarrow> py_exception + string" where
  "interview_question_generator llm input_text =
     llm (interview_question_generator_prompt input_text)"

text \<open>\<open>langchain.tools.Tool(name=..., func=..., description=...)\<close>.\<close>

record tool =
  name :: string
  func :: "string \<Rightarrow> py_exception + string"
  description :: string

definition make_skills_gap_tool :: "llm \<Rightarrow> tool" where
  "make_skills_gap_tool llm =
     \<lparr>name = ''skills_gap_analyzer'',
      func = skills_gap_analyzer llm,
      description =
        ''Analyze the gap between a user's current skills and a target job's requirements '' @
        ''and generate a structured learning path. Use when user asks about skill gaps, '' @
        ''learning roadmap, or how to reach a specific role.''\<rparr>"

definition make_resume_scorer_tool :: "llm \<Rightarrow> tool" where
  "make_resume_scorer_tool llm =
     \<lparr>name = ''resume_scorer'',
      func = resume_scorer llm,
      description =
        ''Score a resume out of 10 for a target role and provide detailed, actionable feedback. '' @
        ''Use when user asks to evaluate, review, or improve a resume or CV.''\<rparr>"

definition make_salary_estimator_tool :: "llm \<Rightarrow> tool" where
  "make_salary_estimator_tool llm =
     \<lparr>name = ''salary_estimator'',
      func = salary_estimator llm,
      description =
        ''Estimate a realistic salary range based on job title, location, and years of experience. '' @
        ''Use when user asks about expected salary, salary range, or compensation.''\<rparr>"

definition make_interview_question_tool :: "llm \<Rightarrow> tool" where
  "make_interview_question_tool llm =
     \<lparr>name = ''interview_question_generator'',
      func = interview_question_generator llm,
      description =
        ''Generate technical and behavioral interview questions for a given role and difficulty. '' @
        ''Use when user wants practice questions or mock interview preparation.''\<rparr>"

subsection \<open>Tool selection\<close>

text \<open>
  \<open>build_tools\<close> builds the dictionary \<open>all_tools\<close> from the four factories and returns
  \<open>[all_tools[name] for name in enabled_tool_names]\<close>. Subscripting a dictionary with a
  key it does not hold raises \<open>KeyError\<close>, which ends the comprehension at that name.
\<close>

datatype key_error = KeyError string

definition all_tools :: "llm \<Rightarrow> (string \<rightharpoonup> tool)" where
  "all_tools llm =
     [''Skills Gap Analyzer'' \<mapsto> make_skills_gap_tool llm,
      ''Resume Scorer'' \<mapsto> make_resume_scorer_tool llm,
      ''Salary Estimator'' \<mapsto> make_salary_estimator_tool llm,
      ''Interview Question Generator'' \<mapsto> make_interview_question_tool llm]"

fun subscript_each :: "(string \<rightharpoonup> tool) \<Rightarrow> string list \<Rightarrow> key_error + tool list" where
  "subscript_each d [] = Inr []"
| "subscript_each d (k # ks) =
     (case d k of
        None \<Rightarrow> Inl (KeyError k)
      | Some t \<Rightarrow>
          (case subscript_each d ks of
             Inl e \<Rightarrow> Inl e
           | Inr ts \<Rightarrow> Inr (t # ts)))"

definition build_tools :: "llm \<Rightarrow> string list \<Rightarrow> key_error + tool list" where
  "build_tools llm enabled_tool_names = subscript_each (all_tools llm) enabled_tool_names"

text \<open>
  The options of the sidebar's multiselect, which are also its default selection. The
  widget returns a selection of these options, so they are the names \<open>build_tools\<close>
  receives from the page.
\<close>

definition default_tools :: "string list" where
  "default_tools =
     [''Skills Gap Analyzer'',
      ''Resume Scorer'',
      ''Salary Estimator'',
      ''Interview Question Generator'']"

subsection \<open>Session state: transcript and conversation memory\<close>

text \<open>A transcript entry, \<open>{"role": ..., "content": ...}\<close>.\<close>

record turn =
  role :: string
  content :: string

text \<open>
  Modelled from the spec: \<open>ConversationBufferMemory\<close> is a class of the langchain
  library, whose code is not part of this repository. The spec describes the conversation
  memory as an ordered sequence of turns that \<open>asContext\<close> exposes to the agent and that
  \<open>clear\<close> empties in full.
\<close>

datatype conversation_memory = ConversationBufferMemory (as_context: "turn list")

text \<open>
  Modelled from the spec: \<open>ConversationBufferMemory.clear\<close>, also langchain's; the spec
  says that \<open>clear()\<close> empties the log, so that \<open>asContext()\<close> after it returns an empty
  sequence.
\<close>

definition clear :: "conversation_memory \<Rightarrow> conversation_memory" where
  "clear m = ConversationBufferMemory []"

text \<open>
  \<open>st.session_state\<close> after the initialisation at the top of the page: both keys are
  present from then on. A fresh session starts with an empty transcript and a new memory.
\<close>

record session_state =
  messages :: "turn list"
  memory :: conversation_memory

definition initial_session_state :: session_state where
  "initial_session_state = \<lparr>messages = [], memory = ConversationBufferMemory []\<rparr>"

text \<open>
  The agent built by langchain's \<open>initialize_agent\<close> is opaque: \<open>agent.run(text)\<close> reads
  and may update the memory it was built with, and returns a reply or raises.
\<close>

type_synonym agent =
  "conversation_memory \<Rightarrow> string \<Rightarrow> (py_exception + string) \<times> conversation_memory"

text \<open>The branch \<open>if clear_chat:\<close>, up to the rerun it requests.\<close>

definition clear_chat_handler :: "session_state \<Rightarrow> session_state" where
  "clear_chat_handler st = st\<lparr>messages := [], memory := clear (memory st)\<rparr>"

text \<open>
  The reply of one cycle: the \<open>try\<close> around \<open>agent.run(user_input)\<close>, whose
  \<open>except Exception as e\<close> branch formats the exception into the reply.
\<close>

definition response_of :: "py_exception + string \<Rightarrow> string" where
  "response_of outcome =
     (case outcome of
        Inr response \<Rightarrow> response
      | Inl e \<Rightarrow> ''Oops, something went wrong: '' @ str_of e)"

text \<open>
  The chat input: \<open>st.chat_input\<close> returns \<open>None\<close> or the submitted text, and
  \<open>if user_input:\<close> skips \<open>None\<close> and the empty string. Otherwise the user turn is
  appended, the agent runs, and the assistant turn is appended.
\<close>

definition chat_input_handler :: "agent \<Rightarrow> string option \<Rightarrow> session_state \<Rightarrow> session_state" where
  "chat_input_handler agent_run user_input st =
     (case user_input of
        None \<Rightarrow> st
      | Some text \<Rightarrow>
          if text = [] then st
          else
            let st1 = st\<lparr>messages := messages st @ [\<lparr>role = ''user'', content = text\<rparr>]\<rparr>;
                (outcome, memory') = agent_run (memory st1) text;
                response = response_of outcome
            in st1\<lparr>messages := messages st1 @ [\<lparr>role = ''assistant'', content = response\<rparr>],
                   memory := memory'\<rparr>)"

text \<open>
  One run of the page's script on the session state, with the sidebar's values. A pressed
  clear button resets the state and requests a rerun before anything else; otherwise the
  tools are built, which may raise, the agent is built from them, and the chat input is
  handled.
\<close>

datatype script_result =
    Rerun session_state
  | Finished session_state
  | Uncaught key_error session_state

definition script_run ::
  "llm \<Rightarrow> (tool list \<Rightarrow> llm \<Rightarrow> agent) \<Rightarrow> string list \<Rightarrow> bool \<Rightarrow> string option \<Rightarrow>
   session_state \<Rightarrow> script_result" where
  "script_run llm initialize_agent enabled_tools clear_chat user_input st =
     (if clear_chat then Rerun (clear_chat_handler st)
      else
        case build_tools llm enabled_tools of
          Inl e \<Rightarrow> Uncaught e st
        | Inr tools \<Rightarrow>
            Finished (chat_input_handler (initialize_agent tools llm) user_input st))"

subsection \<open>Stand-ins for the external collaborators\<close>

text \<open>
  Concrete model handles and agents at which the definitions are evaluated: a model that
  answers every prompt with the prompt itself, an agent that answers with a fixed text
  without touching the memory, and an agent whose run always raises.
\<close>

definition echo_llm :: llm where
  "echo_llm prompt = Inr prompt"

definition fixed_reply_agent :: agent where
  "fixed_reply_agent m text = (Inr ''Start with the job description.'', m)"

definition failing_agent :: agent where
  "failing_agent m text = (Inl (PyException ''connection refused''), m)"

section \<open>Tool selection\<close>

subsection \<open>The dictionary of tools\<close>

lemma all_tools_Some_iff: "(all_tools llm k \<noteq> None) = (k \<in> set default_tools)"
  by (simp add: all_tools_def default_tools_def)

lemma dom_all_tools: "dom (all_tools llm) = set default_tools"
  using all_tools_Some_iff[of llm] by (auto simp: dom_def)

lemma default_tools_set:
  "set default_tools =
     {''Skills Gap Analyzer'', ''Resume Scorer'', ''Salary Estimator'', ''Interview Question Generator''}"
  by (simp add: default_tools_def)

lemma tool_names:
  "name (make_skills_gap_tool llm) = ''skills_gap_analyzer''"
  "name (make_resume_scorer_tool llm) = ''resume_scorer''"
  "name (make_salary_estimator_tool llm) = ''salary_estimator''"
  "name (make_interview_question_tool llm) = ''interview_question_generator''"
  by (simp_all add: make_skills_gap_tool_def make_resume_scorer_tool_def
      make_salary_estimator_tool_def make_interview_question_tool_def)

lemma all_tools_lookup:
  "all_tools llm ''Skills Gap Analyzer'' = Some (make_skills_gap_tool llm)"
  "all_tools llm ''Resume Scorer'' = Some (make_resume_scorer_tool llm)"
  "all_tools llm ''Salary Estimator'' = Some (make_salary_estimator_tool llm)"
  "all_tools llm ''Interview Question Generator'' = Some (make_interview_question_tool llm)"
  by (simp_all add: all_tools_def)

lemma career_planner_unknown: "''Career Planner'' \<notin> set default_tools"
  by (simp add: default_tools_def)

lemma all_tools_career_planner: "all_tools llm ''Career Planner'' = None"
  by (simp add: all_tools_def)

text \<open>Every entry of the dictionary carries a tool name of its own, so the key is determined
  by the tool.\<close>

lemma all_tools_name:
  "all_tools llm k = Some t \<Longrightarrow>
   (k = ''Skills Gap Analyzer'' \<and> name t = ''skills_gap_analyzer'') \<or>
   (k = ''Resume Scorer'' \<and> name t = ''resume_scorer'') \<or>
   (k = ''Salary Estimator'' \<and> name t = ''salary_estimator'') \<or>
   (k = ''Interview Question Generator'' \<and> name t = ''interview_question_generator'')"
  unfolding all_tools_def
  by (simp split: if_splits) (use tool_names in blast)+

lemma all_tools_key:
  "all_tools llm k = Some t \<Longrightarrow>
   k = (if name t = ''skills_gap_analyzer'' then ''Skills Gap Analyzer''
        else if name t = ''resume_scorer'' then ''Resume Scorer''
        else if name t = ''salary_estimator'' then ''Salary Estimator''
        else ''Interview Question Generator'')"
  using all_tools_name[of llm k t] by fastforce

lemma all_tools_inj:
  assumes "all_tools llm a = Some t" and "all_tools llm b = Some t"
  shows "a = b"
  using all_tools_key[OF assms(1)] all_tools_key[OF assms(2)] by simp

lemma tool_of_inj:
  assumes "a \<in> set default_tools" and "b \<in> set default_tools"
    and "the (all_tools llm a) = the (all_tools llm b)"
  shows "a = b"
proof -
  from assms(1) obtain t where a: "all_tools llm a = Some t"
    using dom_all_tools[of llm] by blast
  from assms(2) obtain u where b: "all_tools llm b = Some u"
    using dom_all_tools[of llm] by blast
  from a b assms(3) have "u = t" by simp
  with a b show ?thesis by (blast intro: all_tools_inj)
qed

subsection \<open>The comprehension\<close>

lemma subscript_each_known:
  "set ks \<subseteq> dom d \<Longrightarrow> subscript_each d ks = Inr (map (\<lambda>k. the (d k)) ks)"
  by (induction ks) auto

lemma subscript_each_unknown:
  "find (\<lambda>k. k \<notin> dom d) ks = Some bad \<Longrightarrow> subscript_each d ks = Inl (KeyError bad)"
  by (induction ks) (auto simp: domIff split: if_splits option.splits)

lemma find_unknown:
  "\<not> set ks \<subseteq> A \<Longrightarrow> \<exists>bad. find (\<lambda>k. k \<notin> A) ks = Some bad"
  by (induction ks) auto

lemma build_tools_known:
  "set names \<subseteq> set default_tools \<Longrightarrow>
   build_tools llm names = Inr (map (\<lambda>n. the (all_tools llm n)) names)"
  by (simp add: build_tools_def subscript_each_known dom_all_tools)

lemma build_tools_unknown:
  "find (\<lambda>n. n \<notin> set default_tools) names = Some bad \<Longrightarrow>
   build_tools llm names = Inl (KeyError bad)"
  using subscript_each_unknown[of "all_tools llm" names bad]
  by (simp add: build_tools_def dom_all_tools)

subsection \<open>Names that are not tool names\<close>

text \<open>
  Claim C1, as the spec states it: names that match no known tool are ignored, and
  \<open>build_tools\<close> returns the known tools without raising. The code subscripts the
  dictionary with every name, so a list with an unknown name raises \<open>KeyError\<close>: with
  the names Resume Scorer and Career Planner, no tool list is returned, and in particular
  not the list holding the resume scorer alone.
\<close>

theorem build_tools_unknown_name_counterexample:
  "''Career Planner'' \<notin> set default_tools \<and>
   build_tools echo_llm [''Resume Scorer'', ''Career Planner''] = Inl (KeyError ''Career Planner'') \<and>
   build_tools echo_llm [''Resume Scorer'', ''Career Planner''] \<noteq>
     Inr [make_resume_scorer_tool echo_llm]"
proof -
  have "build_tools echo_llm [''Resume Scorer'', ''Career Planner''] = Inl (KeyError ''Career Planner'')"
    by (simp add: build_tools_def all_tools_lookup all_tools_career_planner)
  then show ?thesis by (simp add: career_planner_unknown)
qed

text \<open>
  Claim C1, amended: when every enabled name is one of the four tool names (the only
  lists the sidebar's multiselect produces), \<open>build_tools\<close> returns the tools of those
  names and raises nothing; when some name is not a tool name, nothing is filtered:
  \<open>build_tools\<close> raises \<open>KeyError\<close> for the first such name and returns no tools.
\<close>

theorem build_tools_unknown_name_raises:
  "(set names \<subseteq> set default_tools \<longrightarrow>
      (\<exists>ts. build_tools llm names = Inr ts \<and> set ts = (\<lambda>n. the (all_tools llm n)) ` set names)) \<and>
   (\<not> set names \<subseteq> set default_tools \<longrightarrow>
      (\<exists>bad. find (\<lambda>n. n \<notin> set default_tools) names = Some bad \<and>
             build_tools llm names = Inl (KeyError bad)))"
proof (intro conjI impI)
  assume known: "set names \<subseteq> set default_tools"
  show "\<exists>ts. build_tools llm names = Inr ts \<and> set ts = (\<lambda>n. the (all_tools llm n)) ` set names"
    unfolding build_tools_known[OF known] by simp
next
  assume "\<not> set names \<subseteq> set default_tools"
  then have "\<exists>bad. find (\<lambda>n. n \<notin> set default_tools) names = Some bad"
    by (rule find_unknown)
  then obtain bad where bad: "find (\<lambda>n. n \<notin> set default_tools) names = Some bad" ..
  show "\<exists>bad. find (\<lambda>n. n \<notin> set default_tools) names = Some bad \<and>
             build_tools llm names = Inl (KeyError bad)"
    using bad build_tools_unknown[OF bad, of llm] by (intro exI[of _ bad] conjI)
qed

theorem build_tools_unknown_name_raises_witness:
  "set [''Salary Estimator'', ''Resume Scorer''] \<subseteq> set default_tools \<and>
   (\<exists>ts. build_tools echo_llm [''Salary Estimator'', ''Resume Scorer''] = Inr ts \<and>
         set ts = {make_salary_estimator_tool echo_llm, make_resume_scorer_tool echo_llm}) \<and>
   \<not> set [''Resume Scorer'', ''Career Planner''] \<subseteq> set default_tools \<and>
   build_tools echo_llm [''Resume Scorer'', ''Career Planner''] = Inl (KeyError ''Career Planner'')"
proof -
  have known: "set [''Salary Estimator'', ''Resume Scorer''] \<subseteq> set default_tools"
    by (simp add: default_tools_set)
  have unknown: "\<not> set [''Resume Scorer'', ''Career Planner''] \<subseteq> set default_tools"
    by (simp add: career_planner_unknown)
  have first: "find (\<lambda>n. n \<notin> set default_tools) [''Resume Scorer'', ''Career Planner'']
      = Some ''Career Planner''"
    by (simp add: default_tools_set)
  from build_tools_unknown_name_raises[of "[''Salary Estimator'', ''Resume Scorer'']" echo_llm] known
  have a: "\<exists>ts. build_tools echo_llm [''Salary Estimator'', ''Resume Scorer''] = Inr ts \<and>
         set ts = {make_salary_estimator_tool echo_llm, make_resume_scorer_tool echo_llm}"
    by (simp add: all_tools_lookup)
  from build_tools_unknown_name_raises[of "[''Resume Scorer'', ''Career Planner'']" echo_llm]
    unknown first
  have b: "build_tools echo_llm [''Resume Scorer'', ''Career Planner''] = Inl (KeyError ''Career Planner'')"
    by simp
  from known a unknown b show ?thesis by blast
qed

subsection \<open>Order and multiplicity of the returned tools\<close>

lemma map_tool_of_inj:
  "set xs \<subseteq> set default_tools \<Longrightarrow> set ys \<subseteq> set default_tools \<Longrightarrow>
   map (\<lambda>n. the (all_tools llm n)) xs = map (\<lambda>n. the (all_tools llm n)) ys \<Longrightarrow> xs = ys"
proof (induction xs arbitrary: ys)
  case Nil
  then show ?case by simp
next
  case (Cons x xs)
  then obtain y ys' where ys: "ys = y # ys'" by (cases ys) auto
  from Cons.prems ys have "x = y" by (intro tool_of_inj[of x y llm]) simp_all
  moreover from Cons.prems ys have "xs = ys'" by (intro Cons.IH) simp_all
  ultimately show ?case using ys by simp
qed

lemma count_list_tool_of:
  assumes "n \<in> set default_tools"
  shows "set names \<subseteq> set default_tools \<Longrightarrow>
   count_list (map (\<lambda>k. the (all_tools llm k)) names) (the (all_tools llm n)) = count_list names n"
proof (induction names)
  case Nil
  then show ?case by simp
next
  case (Cons k ks)
  then have k: "k \<in> set default_tools" by simp
  have "(the (all_tools llm k) = the (all_tools llm n)) = (k = n)"
    using tool_of_inj[OF k assms, of llm] by blast
  with Cons show ?case by simp
qed

lemma build_tools_default:
  "build_tools llm default_tools =
     Inr [make_skills_gap_tool llm, make_resume_scorer_tool llm,
          make_salary_estimator_tool llm, make_interview_question_tool llm]"
  by (simp add: build_tools_def default_tools_def all_tools_lookup)

lemma resume_scorer_not_skills_gap: "make_resume_scorer_tool llm \<noteq> make_skills_gap_tool llm"
proof
  assume "make_resume_scorer_tool llm = make_skills_gap_tool llm"
  then have "name (make_resume_scorer_tool llm) = name (make_skills_gap_tool llm)" by simp
  then show False by (simp add: tool_names)
qed

text \<open>
  Claim C2, as the spec states it: two lists holding the same set of known names give the
  tools in the same order, declaration order. The comprehension follows the list it is
  given: the names Resume Scorer, Skills Gap Analyzer and the same two names the other way
  round hold the same set, and the results differ; the first has the resume scorer before
  the skills gap analyzer, against declaration order.
\<close>

theorem build_tools_declaration_order_counterexample:
  "set [''Resume Scorer'', ''Skills Gap Analyzer''] = set [''Skills Gap Analyzer'', ''Resume Scorer''] \<and>
   build_tools echo_llm [''Skills Gap Analyzer'', ''Resume Scorer''] =
     Inr [make_skills_gap_tool echo_llm, make_resume_scorer_tool echo_llm] \<and>
   build_tools echo_llm [''Resume Scorer'', ''Skills Gap Analyzer''] =
     Inr [make_resume_scorer_tool echo_llm, make_skills_gap_tool echo_llm] \<and>
   build_tools echo_llm [''Resume Scorer'', ''Skills Gap Analyzer''] \<noteq>
     build_tools echo_llm [''Skills Gap Analyzer'', ''Resume Scorer''] \<and>
   map name [make_resume_scorer_tool echo_llm, make_skills_gap_tool echo_llm] =
     [''resume_scorer'', ''skills_gap_analyzer'']"
proof -
  have a: "set [''Resume Scorer'', ''Skills Gap Analyzer''] =
      set [''Skills Gap Analyzer'', ''Resume Scorer'']"
    by (simp add: insert_commute)
  have b: "build_tools echo_llm [''Skills Gap Analyzer'', ''Resume Scorer''] =
     Inr [make_skills_gap_tool echo_llm, make_resume_scorer_tool echo_llm]"
    by (simp add: build_tools_def all_tools_lookup)
  have c: "build_tools echo_llm [''Resume Scorer'', ''Skills Gap Analyzer''] =
     Inr [make_resume_scorer_tool echo_llm, make_skills_gap_tool echo_llm]"
    by (simp add: build_tools_def all_tools_lookup)
  have d: "build_tools echo_llm [''Resume Scorer'', ''Skills Gap Analyzer''] \<noteq>
     build_tools echo_llm [''Skills Gap Analyzer'', ''Resume Scorer'']"
    unfolding b c using resume_scorer_not_skills_gap[of echo_llm] by simp
  have e: "map name [make_resume_scorer_tool echo_llm, make_skills_gap_tool echo_llm] =
     [''resume_scorer'', ''skills_gap_analyzer'']"
    by (simp add: tool_names)
  from a b c d e show ?thesis by (intro conjI)
qed

text \<open>
  Claim C2, amended: for every list of known tool names, \<open>build_tools\<close> returns the
  tools in the order in which their names occur in the list, one tool per occurrence.
  That is deterministic, and two lists of known names give the same result exactly when
  they are the same list; the result is in declaration order (Skills Gap Analyzer, Resume
  Scorer, Salary Estimator, Interview Question Generator) when the list is, as the
  multiselect's default selection is.
\<close>

theorem build_tools_input_order:
  "(set xs \<subseteq> set default_tools \<longrightarrow>
      build_tools llm xs = Inr (map (\<lambda>n. the (all_tools llm n)) xs)) \<and>
   (set xs \<subseteq> set default_tools \<and> set ys \<subseteq> set default_tools \<longrightarrow>
      (build_tools llm xs = build_tools llm ys) = (xs = ys)) \<and>
   build_tools llm default_tools =
     Inr [make_skills_gap_tool llm, make_resume_scorer_tool llm,
          make_salary_estimator_tool llm, make_interview_question_tool llm]"
proof (intro conjI impI)
  assume "set xs \<subseteq> set default_tools"
  then show "build_tools llm xs = Inr (map (\<lambda>n. the (all_tools llm n)) xs)"
    by (rule build_tools_known)
next
  assume k: "set xs \<subseteq> set default_tools \<and> set ys \<subseteq> set default_tools"
  then have kx: "set xs \<subseteq> set default_tools" and ky: "set ys \<subseteq> set default_tools"
    by simp_all
  show "(build_tools llm xs = build_tools llm ys) = (xs = ys)"
    using map_tool_of_inj[OF kx ky, of llm]
    by (auto simp: build_tools_known[OF kx] build_tools_known[OF ky])
next
  show "build_tools llm default_tools =
     Inr [make_skills_gap_tool llm, make_resume_scorer_tool llm,
          make_salary_estimator_tool llm, make_interview_question_tool llm]"
    by (rule build_tools_default)
qed

theorem build_tools_input_order_witness:
  "set [''Resume Scorer'', ''Skills Gap Analyzer''] \<subseteq> set default_tools \<and>
   set [''Skills Gap Analyzer'', ''Resume Scorer''] \<subseteq> set default_tools \<and>
   build_tools echo_llm [''Resume Scorer'', ''Skills Gap Analyzer''] =
     Inr [make_resume_scorer_tool echo_llm, make_skills_gap_tool echo_llm] \<and>
   build_tools echo_llm [''Resume Scorer'', ''Skills Gap Analyzer''] \<noteq>
     build_tools echo_llm [''Skills Gap Analyzer'', ''Resume Scorer'']"
proof -
  have a: "set [''Resume Scorer'', ''Skills Gap Analyzer''] \<subseteq> set default_tools"
    by (simp add: default_tools_set)
  have b: "set [''Skills Gap Analyzer'', ''Resume Scorer''] \<subseteq> set default_tools"
    by (simp add: default_tools_set)
  note t = build_tools_input_order[where xs = "[''Resume Scorer'', ''Skills Gap Analyzer'']"
      and ys = "[''Skills Gap Analyzer'', ''Resume Scorer'']" and llm = echo_llm]
  from t a have c: "build_tools echo_llm [''Resume Scorer'', ''Skills Gap Analyzer''] =
     Inr [make_resume_scorer_tool echo_llm, make_skills_gap_tool echo_llm]"
    by (simp add: all_tools_lookup)
  from t a b have "(build_tools echo_llm [''Resume Scorer'', ''Skills Gap Analyzer''] =
      build_tools echo_llm [''Skills Gap Analyzer'', ''Resume Scorer'']) =
     ([''Resume Scorer'', ''Skills Gap Analyzer''] = [''Skills Gap Analyzer'', ''Resume Scorer''])"
    by blast
  then have d: "build_tools echo_llm [''Resume Scorer'', ''Skills Gap Analyzer''] \<noteq>
     build_tools echo_llm [''Skills Gap Analyzer'', ''Resume Scorer'']"
    by simp
  from a b c d show ?thesis by (intro conjI)
qed

text \<open>
  Claim C9: when every enabled name is a known tool name, \<open>build_tools\<close> returns a list
  as long as the list of names, whose entry at each position is the tool of the name at
  that position; so a tool occurs in the result as often as its name occurs in the input,
  and nothing is deduplicated.
\<close>

theorem build_tools_keeps_length_and_duplicates:
  "set names \<subseteq> set default_tools \<Longrightarrow>
   \<exists>ts. build_tools llm names = Inr ts \<and>
        length ts = length names \<and>
        (\<forall>i < length names. ts ! i = the (all_tools llm (names ! i))) \<and>
        (\<forall>n \<in> set default_tools. count_list ts (the (all_tools llm n)) = count_list names n)"
proof -
  assume known: "set names \<subseteq> set default_tools"
  let ?ts = "map (\<lambda>n. the (all_tools llm n)) names"
  have "build_tools llm names = Inr ?ts" using known by (rule build_tools_known)
  moreover have "length ?ts = length names" by simp
  moreover have "\<forall>i < length names. ?ts ! i = the (all_tools llm (names ! i))" by simp
  moreover have "\<forall>n \<in> set default_tools. count_list ?ts (the (all_tools llm n)) = count_list names n"
    using known by (simp add: count_list_tool_of)
  ultimately show ?thesis by blast
qed

theorem build_tools_keeps_length_and_duplicates_witness:
  "set [''Resume Scorer'', ''Salary Estimator'', ''Resume Scorer''] \<subseteq> set default_tools \<and>
   (\<exists>ts. build_tools echo_llm [''Resume Scorer'', ''Salary Estimator'', ''Resume Scorer''] = Inr ts \<and>
         length ts = 3 \<and>
         count_list ts (make_resume_scorer_tool echo_llm) = 2)"
proof -
  have a: "set [''Resume Scorer'', ''Salary Estimator'', ''Resume Scorer''] \<subseteq> set default_tools"
    by (simp add: default_tools_set)
  have r: "''Resume Scorer'' \<in> set default_tools" by (simp add: default_tools_set)
  from build_tools_keeps_length_and_duplicates[OF a, of echo_llm] obtain ts where
    ts: "build_tools echo_llm [''Resume Scorer'', ''Salary Estimator'', ''Resume Scorer''] = Inr ts"
      "length ts = length [''Resume Scorer'', ''Salary Estimator'', ''Resume Scorer'']"
      "\<forall>n \<in> set default_tools. count_list ts (the (all_tools echo_llm n)) =
         count_list [''Resume Scorer'', ''Salary Estimator'', ''Resume Scorer''] n"
    by blast
  from ts(3) r have "count_list ts (the (all_tools echo_llm ''Resume Scorer'')) =
      count_list [''Resume Scorer'', ''Salary Estimator'', ''Resume Scorer''] ''Resume Scorer''"
    by blast
  then have "count_list ts (make_resume_scorer_tool echo_llm) = 2"
    by (simp add: all_tools_lookup)
  with ts(1,2) a show ?thesis by simp
qed

section \<open>Prompt rendering\<close>

text \<open>
  Each template is a fixed text before the input and the closing line break after it. The
  text before the input is what the template renders for the empty input, without its
  last character.
\<close>

lemma skills_gap_analyzer_prompt_shape:
  "skills_gap_analyzer_prompt x = butlast (skills_gap_analyzer_prompt []) @ x @ ''\<newline>''"
  by (simp add: skills_gap_analyzer_prompt_def)

lemma resume_scorer_prompt_shape:
  "resume_scorer_prompt x = butlast (resume_scorer_prompt []) @ x @ ''\<newline>''"
  by (simp add: resume_scorer_prompt_def)

lemma salary_estimator_prompt_shape:
  "salary_estimator_prompt x = butlast (salary_estimator_prompt []) @ x @ ''\<newline>''"
  by (simp add: salary_estimator_prompt_def)

lemma interview_question_generator_prompt_shape:
  "interview_question_generator_prompt x =
     butlast (interview_question_generator_prompt []) @ x @ ''\<newline>''"
  by (simp add: interview_question_generator_prompt_def)

lemma prompt_lengths:
  "length (skills_gap_analyzer_prompt x) = length x + 389"
  "length (resume_scorer_prompt x) = length x + 401"
  "length (salary_estimator_prompt x) = length x + 529"
  "length (interview_question_generator_prompt x) = length x + 405"
  by (simp_all add: skills_gap_analyzer_prompt_def resume_scorer_prompt_def
      salary_estimator_prompt_def interview_question_generator_prompt_def)

lemma tool_funcs:
  "func (make_skills_gap_tool llm) x = llm (skills_gap_analyzer_prompt x)"
  "func (make_resume_scorer_tool llm) x = llm (resume_scorer_prompt x)"
  "func (make_salary_estimator_tool llm) x = llm (salary_estimator_prompt x)"
  "func (make_interview_question_tool llm) x = llm (interview_question_generator_prompt x)"
  by (simp_all add: make_skills_gap_tool_def skills_gap_analyzer_def
      make_resume_scorer_tool_def resume_scorer_def
      make_salary_estimator_tool_def salary_estimator_def
      make_interview_question_tool_def interview_question_generator_def)

text \<open>
  Claim C4: for all four tools, rendering is pure and total. The rendered prompt is a
  function of the input text alone, so equal inputs give equal prompts; it is defined for
  every input, with the template's characters added to the input's; and whatever model
  handle the tool was built with, the tool hands that handle exactly the rendered prompt,
  so nothing but the input decides what the model is asked.
\<close>

theorem prompt_rendering_deterministic:
  "(x = y \<longrightarrow> skills_gap_analyzer_prompt x = skills_gap_analyzer_prompt y) \<and>
   (x = y \<longrightarrow> resume_scorer_prompt x = resume_scorer_prompt y) \<and>
   (x = y \<longrightarrow> salary_estimator_prompt x = salary_estimator_prompt y) \<and>
   (x = y \<longrightarrow> interview_question_generator_prompt x = interview_question_generator_prompt y) \<and>
   length (skills_gap_analyzer_prompt x) = length x + 389 \<and>
   length (resume_scorer_prompt x) = length x + 401 \<and>
   length (salary_estimator_prompt x) = length x + 529 \<and>
   length (interview_question_generator_prompt x) = length x + 405 \<and>
   func (make_skills_gap_tool llm) x = llm (skills_gap_analyzer_prompt x) \<and>
   func (make_resume_scorer_tool llm) x = llm (resume_scorer_prompt x) \<and>
   func (make_salary_estimator_tool llm) x = llm (salary_estimator_prompt x) \<and>
   func (make_interview_question_tool llm) x = llm (interview_question_generator_prompt x)"
  using prompt_lengths[of x] tool_funcs[of llm x] by simp

theorem prompt_rendering_deterministic_witness:
  "''Job Title: Data Engineer'' = ''Job Title: Data Engineer'' \<and>
   skills_gap_analyzer_prompt ''Job Title: Data Engineer'' =
     skills_gap_analyzer_prompt ''Job Title: Data Engineer'' \<and>
   length (salary_estimator_prompt ''Job Title: Data Engineer'') = 553 \<and>
   func (make_salary_estimator_tool echo_llm) ''Job Title: Data Engineer'' =
     Inr (salary_estimator_prompt ''Job Title: Data Engineer'')"
  using prompt_rendering_deterministic[of "''Job Title: Data Engineer''"
      "''Job Title: Data Engineer''" echo_llm]
  by (simp add: echo_llm_def)

text \<open>
  Claim C5: each of the four tools embeds the input verbatim in its fixed template. For
  each template there are a fixed text before and a fixed text after such that every
  input, well-formed or not, is rendered as the first, the input unchanged, and the
  second; so the input is a contiguous part of the prompt, and the tool hands the model
  this prompt without looking into the input.
\<close>

theorem input_embedded_verbatim:
  "(\<exists>pre post. \<forall>x. skills_gap_analyzer_prompt x = pre @ x @ post) \<and>
   (\<exists>pre post. \<forall>x. resume_scorer_prompt x = pre @ x @ post) \<and>
   (\<exists>pre post. \<forall>x. salary_estimator_prompt x = pre @ x @ post) \<and>
   (\<exists>pre post. \<forall>x. interview_question_generator_prompt x = pre @ x @ post) \<and>
   sublist input_text (skills_gap_analyzer_prompt input_text) \<and>
   sublist input_text (resume_scorer_prompt input_text) \<and>
   sublist input_text (salary_estimator_prompt input_text) \<and>
   sublist input_text (interview_question_generator_prompt input_text) \<and>
   func (make_skills_gap_tool llm) input_text = llm (skills_gap_analyzer_prompt input_text) \<and>
   func (make_resume_scorer_tool llm) input_text = llm (resume_scorer_prompt input_text) \<and>
   func (make_salary_estimator_tool llm) input_text = llm (salary_estimator_prompt input_text) \<and>
   func (make_interview_question_tool llm) input_text =
     llm (interview_question_generator_prompt input_text)"
proof -
  have "\<exists>pre post. \<forall>x. skills_gap_analyzer_prompt x = pre @ x @ post"
    using skills_gap_analyzer_prompt_shape by blast
  moreover have "\<exists>pre post. \<forall>x. resume_scorer_prompt x = pre @ x @ post"
    using resume_scorer_prompt_shape by blast
  moreover have "\<exists>pre post. \<forall>x. salary_estimator_prompt x = pre @ x @ post"
    using salary_estimator_prompt_shape by blast
  moreover have "\<exists>pre post. \<forall>x. interview_question_generator_prompt x = pre @ x @ post"
    using interview_question_generator_prompt_shape by blast
  moreover have "sublist input_text (skills_gap_analyzer_prompt input_text)"
    by (subst skills_gap_analyzer_prompt_shape) (rule sublist_appendI)
  moreover have "sublist input_text (resume_scorer_prompt input_text)"
    by (subst resume_scorer_prompt_shape) (rule sublist_appendI)
  moreover have "sublist input_text (salary_estimator_prompt input_text)"
    by (subst salary_estimator_prompt_shape) (rule sublist_appendI)
  moreover have "sublist input_text (interview_question_generator_prompt input_text)"
    by (subst interview_question_generator_prompt_shape) (rule sublist_appendI)
  moreover note tool_funcs[of llm input_text]
  ultimately show ?thesis by (intro conjI)
qed

text \<open>
  Claim C6: for the input of scenario A, the skills-gap prompt is a head, then the input
  verbatim, then the line break that closes the template and nothing else; the head holds
  the five numbered instructions, items 1 to 5, one per line.
\<close>

theorem skills_gap_scenario_prompt:
  "\<exists>head.
     skills_gap_analyzer_prompt
       ''Target Role: Backend Engineer\<newline>User Skills:\<newline>- Python\<newline>- SQL\<newline>Target Job Description:\<newline>Build scalable APIs'' =
     head @
       ''Target Role: Backend Engineer\<newline>User Skills:\<newline>- Python\<newline>- SQL\<newline>Target Job Description:\<newline>Build scalable APIs'' @
       ''\<newline>'' \<and>
     sublist
       (''1. Strong matches\<newline>'' @
        ''2. Partial matches\<newline>'' @
        ''3. Clear gaps\<newline>'' @
        ''4. A step-by-step learning path (ordered roadmap) to close the gaps.\<newline>'' @
        ''5. Recommended resources or practice project ideas.\<newline>'')
       head"
proof -
  have "sublist
       (''1. Strong matches\<newline>'' @
        ''2. Partial matches\<newline>'' @
        ''3. Clear gaps\<newline>'' @
        ''4. A step-by-step learning path (ordered roadmap) to close the gaps.\<newline>'' @
        ''5. Recommended resources or practice project ideas.\<newline>'')
       (butlast (skills_gap_analyzer_prompt []))"
    by (simp add: skills_gap_analyzer_prompt_def sublist_Cons_right)
  with skills_gap_analyzer_prompt_shape show ?thesis by blast
qed

text \<open>
  Claim C7: for every input, the salary prompt contains the instruction to be explicit
  that the result is an approximate estimate, not official or guaranteed.
\<close>

theorem salary_prompt_disclaimer:
  "sublist ''Be explicit that this is an approximate estimate, not official or guaranteed.''
     (salary_estimator_prompt input_text)"
  by (simp add: salary_estimator_prompt_def sublist_Cons_right)

section \<open>The chat session\<close>

subsection \<open>One cycle of the chat input\<close>

lemma chat_input_handler_None: "chat_input_handler agent_run None st = st"
  by (simp add: chat_input_handler_def)

lemma chat_input_handler_empty: "chat_input_handler agent_run (Some []) st = st"
  by (simp add: chat_input_handler_def)

lemma chat_input_handler_messages:
  "utterance \<noteq> [] \<Longrightarrow>
   messages (chat_input_handler agent_run (Some utterance) st) =
     messages st @
       [\<lparr>role = ''user'', content = utterance\<rparr>,
        \<lparr>role = ''assistant'', content = response_of (fst (agent_run (memory st) utterance))\<rparr>]"
  by (simp add: chat_input_handler_def Let_def split: prod.splits)

lemma chat_input_handler_memory:
  "utterance \<noteq> [] \<Longrightarrow>
   memory (chat_input_handler agent_run (Some utterance) st) = snd (agent_run (memory st) utterance)"
  by (simp add: chat_input_handler_def Let_def split: prod.splits)

lemma response_of_exception:
  "response_of (Inl e) = ''Oops, something went wrong: '' @ str_of e"
  by (simp add: response_of_def)

lemma script_run_clear:
  "script_run llm initialize_agent enabled_tools True user_input st = Rerun (clear_chat_handler st)"
  by (simp add: script_run_def)

lemma script_run_chat:
  "build_tools llm enabled_tools = Inr tools \<Longrightarrow>
   script_run llm initialize_agent enabled_tools False user_input st =
     Finished (chat_input_handler (initialize_agent tools llm) user_input st)"
  by (simp add: script_run_def)

lemma script_run_key_error:
  "build_tools llm enabled_tools = Inl e \<Longrightarrow>
   script_run llm initialize_agent enabled_tools False user_input st = Uncaught e st"
  by (simp add: script_run_def)

text \<open>
  Claim C3: when the agent's run for a non-empty utterance raises an exception, a model
  call that failed included, the cycle still ends with a reply: the text
  \<open>Oops, something went wrong: \<close> followed by the exception's text, which is not empty
  whatever the exception says. That reply is recorded as the assistant turn after the
  user turn, and the resulting session state takes the next utterance as any other does:
  the next cycle appends its two turns after these.
\<close>

theorem agent_exception_becomes_reply:
  assumes "utterance \<noteq> []" and "fst (agent_run (memory st) utterance) = Inl e"
  shows "\<exists>reply.
     messages (chat_input_handler agent_run (Some utterance) st) =
       messages st @
         [\<lparr>role = ''user'', content = utterance\<rparr>, \<lparr>role = ''assistant'', content = reply\<rparr>] \<and>
     reply = ''Oops, something went wrong: '' @ str_of e \<and>
     reply \<noteq> [] \<and>
     prefix ''Oops, something went wrong: '' reply \<and>
     (\<forall>next_agent next_utterance. next_utterance \<noteq> [] \<longrightarrow>
        (\<exists>next_reply.
           messages (chat_input_handler next_agent (Some next_utterance)
                       (chat_input_handler agent_run (Some utterance) st)) =
             messages st @
               [\<lparr>role = ''user'', content = utterance\<rparr>, \<lparr>role = ''assistant'', content = reply\<rparr>,
                \<lparr>role = ''user'', content = next_utterance\<rparr>,
                \<lparr>role = ''assistant'', content = next_reply\<rparr>]))"
proof -
  let ?reply = "''Oops, something went wrong: '' @ str_of e"
  let ?st' = "chat_input_handler agent_run (Some utterance) st"
  have m: "messages ?st' =
       messages st @
         [\<lparr>role = ''user'', content = utterance\<rparr>, \<lparr>role = ''assistant'', content = ?reply\<rparr>]"
    using chat_input_handler_messages[OF assms(1), of agent_run st] assms(2)
    by (simp add: response_of_exception)
  have n: "\<forall>next_agent next_utterance. next_utterance \<noteq> [] \<longrightarrow>
        (\<exists>next_reply.
           messages (chat_input_handler next_agent (Some next_utterance) ?st') =
             messages st @
               [\<lparr>role = ''user'', content = utterance\<rparr>, \<lparr>role = ''assistant'', content = ?reply\<rparr>,
                \<lparr>role = ''user'', content = next_utterance\<rparr>,
                \<lparr>role = ''assistant'', content = next_reply\<rparr>])"
    by (simp add: chat_input_handler_messages m)
  have p: "prefix ''Oops, something went wrong: '' ?reply" by (rule prefixI) (rule refl)
  have q: "?reply \<noteq> []" by simp
  from m n p q show ?thesis by blast
qed


theorem agent_exception_becomes_reply_witness:
  "''Review my resume'' \<noteq> [] \<and>
   fst (failing_agent (memory initial_session_state) ''Review my resume'') =
     Inl (PyException ''connection refused'') \<and>
   messages (chat_input_handler failing_agent (Some ''Review my resume'') initial_session_state) =
     [\<lparr>role = ''user'', content = ''Review my resume''\<rparr>,
      \<lparr>role = ''assistant'', content = ''Oops, something went wrong: connection refused''\<rparr>] \<and>
   messages (chat_input_handler fixed_reply_agent (Some ''Try again'')
       (chat_input_handler failing_agent (Some ''Review my resume'') initial_session_state)) =
     [\<lparr>role = ''user'', content = ''Review my resume''\<rparr>,
      \<lparr>role = ''assistant'', content = ''Oops, something went wrong: connection refused''\<rparr>,
      \<lparr>role = ''user'', content = ''Try again''\<rparr>,
      \<lparr>role = ''assistant'', content = ''Start with the job description.''\<rparr>]"
proof -
  have a: "''Review my resume'' \<noteq> []" by simp
  have b: "fst (failing_agent (memory initial_session_state) ''Review my resume'') =
     Inl (PyException ''connection refused'')"
    by (simp add: failing_agent_def)
  from agent_exception_becomes_reply[where utterance = "''Review my resume''" and agent_run = failing_agent
      and st = initial_session_state and e = "PyException ''connection refused''", OF a b]
  obtain reply where
    r: "messages (chat_input_handler failing_agent (Some ''Review my resume'') initial_session_state) =
       messages initial_session_state @
         [\<lparr>role = ''user'', content = ''Review my resume''\<rparr>, \<lparr>role = ''assistant'', content = reply\<rparr>]"
      "reply = ''Oops, something went wrong: '' @ str_of (PyException ''connection refused'')"
    by blast
  have c: "messages (chat_input_handler failing_agent (Some ''Review my resume'') initial_session_state) =
     [\<lparr>role = ''user'', content = ''Review my resume''\<rparr>,
      \<lparr>role = ''assistant'', content = ''Oops, something went wrong: connection refused''\<rparr>]"
    using r by (simp add: initial_session_state_def)
  have d: "messages (chat_input_handler fixed_reply_agent (Some ''Try again'')
       (chat_input_handler failing_agent (Some ''Review my resume'') initial_session_state)) =
     [\<lparr>role = ''user'', content = ''Review my resume''\<rparr>,
      \<lparr>role = ''assistant'', content = ''Oops, something went wrong: connection refused''\<rparr>,
      \<lparr>role = ''user'', content = ''Try again''\<rparr>,
      \<lparr>role = ''assistant'', content = ''Start with the job description.''\<rparr>]"
    by (simp add: chat_input_handler_messages c fixed_reply_agent_def response_of_def)
  from a b c d show ?thesis by (intro conjI)
qed


text \<open>
  Claim C10: a cycle whose utterance is absent or empty leaves the session state, and so
  the transcript, as it was. A cycle with a non-empty utterance appends exactly two turns
  to the transcript, the user turn holding the utterance and then the assistant turn
  holding the reply, and changes no earlier turn. So if every turn of the transcript has
  the role user or assistant before a cycle, every turn has one of them after it.
\<close>

theorem chat_cycle_appends_two_turns:
  "chat_input_handler agent_run None st = st \<and>
   chat_input_handler agent_run (Some []) st = st \<and>
   (utterance \<noteq> [] \<longrightarrow>
      messages (chat_input_handler agent_run (Some utterance) st) =
        messages st @
          [\<lparr>role = ''user'', content = utterance\<rparr>,
           \<lparr>role = ''assistant'',
            content = response_of (fst (agent_run (memory st) utterance))\<rparr>]) \<and>
   ((\<forall>t \<in> set (messages st). role t = ''user'' \<or> role t = ''assistant'') \<longrightarrow>
    (\<forall>t \<in> set (messages (chat_input_handler agent_run user_input st)).
       role t = ''user'' \<or> role t = ''assistant''))"
proof (intro conjI impI)
  show "chat_input_handler agent_run None st = st" by (rule chat_input_handler_None)
  show "chat_input_handler agent_run (Some []) st = st" by (rule chat_input_handler_empty)
next
  assume "utterance \<noteq> []"
  then show "messages (chat_input_handler agent_run (Some utterance) st) =
        messages st @
          [\<lparr>role = ''user'', content = utterance\<rparr>,
           \<lparr>role = ''assistant'',
            content = response_of (fst (agent_run (memory st) utterance))\<rparr>]"
    by (rule chat_input_handler_messages)
next
  assume inv: "\<forall>t \<in> set (messages st). role t = ''user'' \<or> role t = ''assistant''"
  show "\<forall>t \<in> set (messages (chat_input_handler agent_run user_input st)).
       role t = ''user'' \<or> role t = ''assistant''"
  proof (cases user_input)
    case None
    with inv show ?thesis by (simp add: chat_input_handler_None)
  next
    case (Some u)
    show ?thesis
    proof (cases "u = []")
      case True
      with Some inv show ?thesis by (simp add: chat_input_handler_empty)
    next
      case False
      with Some inv show ?thesis by (auto simp: chat_input_handler_messages)
    qed
  qed
qed


theorem chat_cycle_appends_two_turns_witness:
  "chat_input_handler fixed_reply_agent None initial_session_state = initial_session_state \<and>
   ''How do I become a data engineer?'' \<noteq> [] \<and>
   messages (chat_input_handler fixed_reply_agent (Some ''How do I become a data engineer?'')
       initial_session_state) =
     [\<lparr>role = ''user'', content = ''How do I become a data engineer?''\<rparr>,
      \<lparr>role = ''assistant'', content = ''Start with the job description.''\<rparr>] \<and>
   list_all (\<lambda>t. role t = ''user'' \<or> role t = ''assistant'') (messages initial_session_state) \<and>
   list_all (\<lambda>t. role t = ''user'' \<or> role t = ''assistant'')
     (messages (chat_input_handler fixed_reply_agent (Some ''How do I become a data engineer?'')
        initial_session_state))"
  using chat_cycle_appends_two_turns[where agent_run = fixed_reply_agent and st = initial_session_state
      and utterance = "''How do I become a data engineer?''"
      and user_input = "Some ''How do I become a data engineer?''"]
  by (simp add: initial_session_state_def fixed_reply_agent_def response_of_def list_all_iff)


subsection \<open>The clear action\<close>

text \<open>
  Claim C8: the clear action resets the transcript and the conversation memory together.
  After it the transcript is the empty list and the memory's context is empty, and a run
  of the script with the clear button pressed does this and nothing else before its rerun.
\<close>

theorem clear_resets_transcript_and_memory:
  "messages (clear_chat_handler st) = [] \<and>
   as_context (memory (clear_chat_handler st)) = [] \<and>
   script_run llm initialize_agent enabled_tools True user_input st = Rerun (clear_chat_handler st)"
  by (simp add: clear_chat_handler_def clear_def script_run_def)


end
